theory Spec2Isabelle
  imports Complex_Main
begin

section \<open>Python values, exceptions and results\<close>

text \<open>
  The bot is a single Python module, \<^verbatim>\<open>bot.py\<close>. Its functions are embedded as HOL
  functions. An exception that a function lets escape is the \<open>Inl\<close> branch of a sum; a
  normal return is the \<open>Inr\<close> branch.
\<close>

datatype exn = KeyError | ValueError | TypeError | AttributeError | IndexError

definition bind_exn :: "exn + 'a \<Rightarrow> ('a \<Rightarrow> exn + 'b) \<Rightarrow> exn + 'b" where
  "bind_exn r f = (case r of Inl e \<Rightarrow> Inl e | Inr v \<Rightarrow> f v)"

text \<open>
  What \<^verbatim>\<open>response.json()\<close> can hand to the program: the Python objects that the
  \<^verbatim>\<open>json\<close> module builds. A \<^verbatim>\<open>dict\<close> is an association list read with
  \<open>map_of\<close>; a \<^verbatim>\<open>float\<close> is a real number (the values \<^verbatim>\<open>nan\<close> and
  \<^verbatim>\<open>inf\<close> are left out). Strings are \<open>string\<close>: a character stands for a code
  point below 256. Among these the decimal digits are the ten ASCII digits, and the white
  space of \<^verbatim>\<open>str.isspace\<close> is listed with \<open>strip\<close> below.
\<close>

datatype py =
    PyNone
  | PyBool bool
  | PyInt int
  | PyFloat real
  | PyStr string
  | PyList "py list"
  | PyDict "(string \<times> py) list"

text \<open>Python truth value testing (\<^verbatim>\<open>if x\<close>, \<^verbatim>\<open>not x\<close>, \<^verbatim>\<open>x and y\<close>).\<close>

fun truthy :: "py \<Rightarrow> bool" where
  "truthy PyNone = False"
| "truthy (PyBool b) = b"
| "truthy (PyInt i) = (i \<noteq> 0)"
| "truthy (PyFloat x) = (x \<noteq> 0)"
| "truthy (PyStr s) = (s \<noteq> [])"
| "truthy (PyList xs) = (xs \<noteq> [])"
| "truthy (PyDict kvs) = (kvs \<noteq> [])"

text \<open>\<^verbatim>\<open>obj[key]\<close> with a string key: only a \<^verbatim>\<open>dict\<close> can answer; a missing key
  raises \<^verbatim>\<open>KeyError\<close>, every other object raises \<^verbatim>\<open>TypeError\<close>.\<close>

fun subscript :: "py \<Rightarrow> string \<Rightarrow> exn + py" where
  "subscript (PyDict kvs) k = (case map_of kvs k of None \<Rightarrow> Inl KeyError | Some v \<Rightarrow> Inr v)"
| "subscript _ k = Inl TypeError"

text \<open>\<^verbatim>\<open>obj.get(key)\<close>: \<^verbatim>\<open>dict.get\<close> returns \<^verbatim>\<open>None\<close> for a missing key; no
  other JSON object has a \<^verbatim>\<open>get\<close> attribute.\<close>

fun py_get :: "py \<Rightarrow> string \<Rightarrow> exn + py" where
  "py_get (PyDict kvs) k = (case map_of kvs k of None \<Rightarrow> Inr PyNone | Some v \<Rightarrow> Inr v)"
| "py_get _ k = Inl AttributeError"

section \<open>Formatting integers\<close>

definition digit_char :: "nat \<Rightarrow> char" where
  "digit_char n = ''0123456789'' ! (n mod 10)"

fun digits :: "nat \<Rightarrow> string" where
  "digits n = (if n < 10 then [digit_char n] else digits (n div 10) @ [digit_char (n mod 10)])"

declare digits.simps [simp del]

text \<open>\<^verbatim>\<open>"%d" % i\<close>\<close>

definition fmt_d :: "int \<Rightarrow> string" where
  "fmt_d i = (if i < 0 then CHR ''-'' # digits (nat (- i)) else digits (nat i))"

text \<open>\<^verbatim>\<open>"%0wd" % i\<close>: the sign first, then zeros up to the width \<open>w\<close>.\<close>

definition fmt_0d :: "nat \<Rightarrow> int \<Rightarrow> string" where
  "fmt_0d w i =
     (let sgn = (if i < 0 then ''-'' else '''');
          ds = digits (nat \<bar>i\<bar>)
      in sgn @ replicate (w - length sgn - length ds) CHR ''0'' @ ds)"

section \<open>Dates, times and durations\<close>

text \<open>
  A naive \<^verbatim>\<open>datetime\<close> is a calendar day (its proleptic ordinal) and the microseconds
  past midnight on that day; a \<^verbatim>\<open>timedelta\<close> is a whole number of microseconds.
  The bounds of Python's calendar (years 1 to 9999) are not modelled: the days involved are
  the current day and the next.
\<close>

record datetime =
  ordinal :: int
  tod :: int

type_synonym timedelta = int

definition us_per_day :: int where
  "us_per_day = 86400000000"

text \<open>\<^verbatim>\<open>datetime.combine(day, time(hour, minute))\<close>\<close>

definition combine :: "int \<Rightarrow> nat \<times> nat \<Rightarrow> datetime" where
  "combine day hm = \<lparr>ordinal = day, tod = (int (fst hm) * 60 + int (snd hm)) * 60000000\<rparr>"

text \<open>\<^verbatim>\<open>a - b\<close> on two datetimes.\<close>

definition dt_diff :: "datetime \<Rightarrow> datetime \<Rightarrow> timedelta" where
  "dt_diff a b = (ordinal a - ordinal b) * us_per_day + (tod a - tod b)"

text \<open>\<^verbatim>\<open>d + td\<close> and \<^verbatim>\<open>d - td\<close> (which Python computes as \<^verbatim>\<open>d + (-td)\<close>).\<close>

definition dt_add :: "datetime \<Rightarrow> timedelta \<Rightarrow> datetime" where
  "dt_add d td =
     (let t = tod d + td
      in \<lparr>ordinal = ordinal d + t div us_per_day, tod = t mod us_per_day\<rparr>)"

definition dt_sub :: "datetime \<Rightarrow> timedelta \<Rightarrow> datetime" where
  "dt_sub d td = dt_add d (- td)"

text \<open>Comparison of datetimes: by day, then by time of day.\<close>

definition dt_less :: "datetime \<Rightarrow> datetime \<Rightarrow> bool" where
  "dt_less a b = (ordinal a < ordinal b \<or> (ordinal a = ordinal b \<and> tod a < tod b))"

text \<open>
  \<^verbatim>\<open>td / n\<close> for an integer \<open>n\<close>: the microseconds are divided and rounded to the nearest
  integer, ties to even (\<^verbatim>\<open>_divide_and_round\<close> in \<^verbatim>\<open>datetime.py\<close>). The source divides
  by 2 and by 6 only, so the \<^verbatim>\<open>ZeroDivisionError\<close> of \<open>n = 0\<close> has no branch here.
\<close>

definition divide_and_round :: "int \<Rightarrow> int \<Rightarrow> int" where
  "divide_and_round a b =
     (let q = a div b;
          r = 2 * (a mod b);
          greater_than_half = (if b > 0 then r > b else r < b)
      in if greater_than_half \<or> (r = b \<and> q mod 2 = 1) then q + 1 else q)"

text \<open>\<^verbatim>\<open>d.strftime("%H:%M")\<close>\<close>

definition strftime_HM :: "datetime \<Rightarrow> string" where
  "strftime_HM d =
     fmt_0d 2 (tod d div 3600000000) @ '':'' @ fmt_0d 2 (tod d div 60000000 mod 60)"

text \<open>\<^verbatim>\<open>str(td)\<close>, as \<^verbatim>\<open>timedelta.__str__\<close> builds it.\<close>

definition timedelta_str :: "timedelta \<Rightarrow> string" where
  "timedelta_str td =
     (let days = td div us_per_day;
          seconds = td mod us_per_day div 1000000;
          microseconds = td mod 1000000;
          ss = seconds mod 60;
          mm = seconds div 60 mod 60;
          hh = seconds div 60 div 60;
          s = fmt_d hh @ '':'' @ fmt_0d 2 mm @ '':'' @ fmt_0d 2 ss;
          s = (if days \<noteq> 0
               then fmt_d days @ '' day'' @ (if \<bar>days\<bar> \<noteq> 1 then ''s'' else '''') @ '', '' @ s
               else s)
      in if microseconds \<noteq> 0 then s @ ''.'' @ fmt_0d 6 microseconds else s)"

text \<open>\<^verbatim>\<open>s.split('.')[0]\<close>: the text before the first dot (all of it when there is none).\<close>

definition split_dot_0 :: "string \<Rightarrow> string" where
  "split_dot_0 s = takeWhile (\<lambda>c. c \<noteq> CHR ''.'') s"

section \<open>Parsing a clock time\<close>

text \<open>
  \<^verbatim>\<open>datetime.strptime(s, "%H:%M").time()\<close>. The library turns the format into the regular
  expression \<^verbatim>\<open>(?P<H>2[0-3]|[0-1]\d|\d):(?P<M>[0-5]\d|\d)\<close>, matches it at the start of
  the text and then requires that nothing is left over. The functions below list the ways
  each group can match, in the order the alternatives are tried; the first way through the
  whole expression is the match.
\<close>

definition is_digit :: "char \<Rightarrow> bool" where
  "is_digit c = (c \<in> set ''0123456789'')"

definition digit_val :: "char \<Rightarrow> nat" where
  "digit_val c = of_char c - 48"

text \<open>The group \<^verbatim>\<open>2[0-3]|[0-1]\d|\d\<close>: each match with the text that follows it.\<close>

definition H_alts :: "string \<Rightarrow> (nat \<times> string) list" where
  "H_alts s =
     (case s of
        a # b # rest \<Rightarrow>
          (if a = CHR ''2'' \<and> b \<in> set ''0123'' then [(20 + digit_val b, rest)] else []) @
          (if a \<in> set ''01'' \<and> is_digit b then [(10 * digit_val a + digit_val b, rest)] else [])
      | _ \<Rightarrow> []) @
     (case s of
        a # rest \<Rightarrow> (if is_digit a then [(digit_val a, rest)] else [])
      | [] \<Rightarrow> [])"

text \<open>The group \<^verbatim>\<open>[0-5]\d|\d\<close>.\<close>

definition M_alts :: "string \<Rightarrow> (nat \<times> string) list" where
  "M_alts s =
     (case s of
        a # b # rest \<Rightarrow>
          (if a \<in> set ''012345'' \<and> is_digit b then [(10 * digit_val a + digit_val b, rest)] else [])
      | _ \<Rightarrow> []) @
     (case s of
        a # rest \<Rightarrow> (if is_digit a then [(digit_val a, rest)] else [])
      | [] \<Rightarrow> [])"

definition colon :: "string \<Rightarrow> string list" where
  "colon s = (case s of c # rest \<Rightarrow> (if c = CHR '':'' then [rest] else []) | [] \<Rightarrow> [])"

definition regex_HM :: "string \<Rightarrow> (nat \<times> nat \<times> string) list" where
  "regex_HM s =
     concat (map (\<lambda>(h, r1).
       concat (map (\<lambda>r2.
         map (\<lambda>(m, r3). (h, m, r3)) (M_alts r2)) (colon r1))) (H_alts s))"

definition strptime_HM :: "py \<Rightarrow> exn + nat \<times> nat" where
  "strptime_HM v =
     (case v of
        PyStr s \<Rightarrow>
          (case regex_HM s of
             [] \<Rightarrow> Inl ValueError
           | (h, m, remains) # _ \<Rightarrow> if remains \<noteq> [] then Inl ValueError else Inr (h, m))
      | _ \<Rightarrow> Inl TypeError)"

section \<open>The time calculation\<close>

text \<open>
  \<^verbatim>\<open>calculate_times(timings)\<close>. The current day, \<^verbatim>\<open>datetime.now().date()\<close>, is the
  parameter \<open>today\<close>. The body of the \<^verbatim>\<open>try\<close> statement is \<open>parse_timings\<close>; the values
  computed after it are the fields of \<open>schedule\<close>, and \<open>format_results\<close> is the returned
  dictionary.
\<close>

definition parse_timings :: "int \<Rightarrow> py \<Rightarrow> exn + datetime \<times> datetime \<times> datetime" where
  "parse_timings today timings =
     (let tomorrow = today + 1 in
      bind_exn (subscript timings ''Maghrib'') (\<lambda>maghrib_time_str.
      bind_exn (subscript timings ''Isha'') (\<lambda>isha_time_str.
      bind_exn (subscript timings ''Fajr'') (\<lambda>fajr_time_str.
      bind_exn (strptime_HM maghrib_time_str) (\<lambda>maghrib_hm.
      bind_exn (strptime_HM isha_time_str) (\<lambda>isha_hm.
      bind_exn (strptime_HM fajr_time_str) (\<lambda>fajr_hm.
        Inr (combine today maghrib_hm, combine today isha_hm, combine tomorrow fajr_hm))))))))"

record schedule =
  maghrib_dt :: datetime
  isha_dt :: datetime
  fajr_dt :: datetime
  night_duration :: timedelta
  midnight_dt :: datetime
  wake_up_dt :: datetime
  sleep_dt :: datetime

definition derive :: "datetime \<times> datetime \<times> datetime \<Rightarrow> schedule" where
  "derive dts =
     (case dts of (maghrib, isha, fajr) \<Rightarrow>
        let night = dt_diff fajr maghrib;
            half_night = divide_and_round night 2;
            midnight = dt_add maghrib half_night;
            wake_up = midnight;
            sixth_night = divide_and_round night 6;
            sleep = dt_sub fajr sixth_night
        in \<lparr>maghrib_dt = maghrib, isha_dt = isha, fajr_dt = fajr, night_duration = night,
            midnight_dt = midnight, wake_up_dt = wake_up, sleep_dt = sleep\<rparr>)"

definition format_results :: "schedule \<Rightarrow> (string \<times> string) list" where
  "format_results r =
     [(''Maghrib'', strftime_HM (maghrib_dt r)),
      (''Isha'', strftime_HM (isha_dt r)),
      (''Fajr'', strftime_HM (fajr_dt r)),
      (''Night_Duration'', split_dot_0 (timedelta_str (night_duration r))),
      (''Islamic_Midnight'', strftime_HM (midnight_dt r)),
      (''Wake_Up_Suggestion'', strftime_HM (wake_up_dt r)),
      (''Sleep_Suggestion'', strftime_HM (sleep_dt r))]"

text \<open>The \<^verbatim>\<open>except (ValueError, KeyError)\<close> clause returns the empty dictionary; any
  other exception leaves the function.\<close>

definition calculate_times :: "int \<Rightarrow> py \<Rightarrow> exn + (string \<times> string) list" where
  "calculate_times today timings =
     (case parse_timings today timings of
        Inl e \<Rightarrow> (if e = ValueError \<or> e = KeyError then Inr [] else Inl e)
      | Inr dts \<Rightarrow> Inr (format_results (derive dts)))"

text \<open>
  Vocabulary for the statements about the calculation: the value stored under a key parses
  to the clock time \<open>hm\<close>; a clock time in minutes past midnight; a datetime on a single
  axis of microseconds.
\<close>

definition parses_as :: "py \<Rightarrow> string \<Rightarrow> nat \<times> nat \<Rightarrow> bool" where
  "parses_as timings key hm =
     (case subscript timings key of
        Inl e \<Rightarrow> False
      | Inr v \<Rightarrow> strptime_HM v = Inr hm)"

definition clock_minutes :: "nat \<times> nat \<Rightarrow> int" where
  "clock_minutes hm = int (fst hm) * 60 + int (snd hm)"

definition instant :: "datetime \<Rightarrow> int" where
  "instant d = ordinal d * us_per_day + tod d"

text \<open>The scenario of the specification: Maghrib 18:00, Isha 19:30, Fajr 04:30.\<close>

definition scenario_timings :: py where
  "scenario_timings =
     PyDict [(''Maghrib'', PyStr ''18:00''), (''Isha'', PyStr ''19:30''), (''Fajr'', PyStr ''04:30'')]"

section \<open>The prayer-times source\<close>

text \<open>
  \<^verbatim>\<open>get_prayer_times(city, country)\<close> sends one GET request. What the network answers
  is the parameter \<open>net\<close>: either \<^verbatim>\<open>requests.get\<close> raises a
  \<^verbatim>\<open>RequestException\<close>, or there is a response with a status code and a body.
  \<^verbatim>\<open>raise_for_status\<close> raises for the codes 400 to 599. A body that is not JSON makes
  \<^verbatim>\<open>response.json()\<close> raise \<^verbatim>\<open>requests.exceptions.JSONDecodeError\<close>, which is a
  \<^verbatim>\<open>RequestException\<close> (requests 2.27 and later). All of these end in the
  \<^verbatim>\<open>except\<close> clause, which returns \<^verbatim>\<open>None\<close>.
\<close>

datatype body = NotJson | Json py

datatype http = RequestFailed | Response nat body

definition get_prayer_times :: "(string \<Rightarrow> string \<Rightarrow> http) \<Rightarrow> string \<Rightarrow> string \<Rightarrow> exn + py" where
  "get_prayer_times net city country =
     (case net city country of
        RequestFailed \<Rightarrow> Inr PyNone
      | Response status_code content \<Rightarrow>
          if 400 \<le> status_code \<and> status_code < 600 then Inr PyNone
          else
            (case content of
               NotJson \<Rightarrow> Inr PyNone
             | Json data \<Rightarrow>
                 if \<not> truthy data then Inr PyNone
                 else
                   bind_exn (py_get data ''data'') (\<lambda>d.
                   if \<not> truthy d then Inr PyNone
                   else
                     bind_exn (subscript data ''data'') (\<lambda>d1.
                     bind_exn (py_get d1 ''timings'') (\<lambda>t.
                     if \<not> truthy t then Inr PyNone
                     else
                       bind_exn (subscript data ''data'') (\<lambda>d2.
                       subscript d2 ''timings''))))))"

section \<open>The session store and the handlers\<close>

text \<open>
  The two module-level dictionaries are the fields of \<open>session\<close>; a saved location,
  the dictionary with the keys \<^verbatim>\<open>city\<close> and \<^verbatim>\<open>country\<close>, is a
  \<open>location\<close>. A handler takes the store and the update and returns a \<open>turn\<close>:
  what it sent, in order, the store it leaves behind, and the exception it let escape, if
  any. The reply texts are fixed templates; a template is kept with the values put into it.
  Failures of the chat transport itself are not modelled.

  Of an update the handlers of commands and of text read \<^verbatim>\<open>update.effective_user\<close> and
  \<^verbatim>\<open>update.message\<close>, and both can be \<^verbatim>\<open>None\<close>: the handlers are registered with
  the default update types and \<^verbatim>\<open>main\<close> polls with \<^verbatim>\<open>Update.ALL_TYPES\<close>, so an
  edited message (which has a user and no \<^verbatim>\<open>update.message\<close>) reaches them, and a
  channel post (which has neither) reaches the handler of text. An attribute read on
  \<^verbatim>\<open>None\<close> raises \<^verbatim>\<open>AttributeError\<close>. The field \<open>message\<close> is the text of
  \<^verbatim>\<open>update.message\<close> where the update has one; the filters let through only messages
  with a text. Of a callback query the handler reads the user's identifier, which is always
  there, and the data, which can be \<^verbatim>\<open>None\<close>.
\<close>

record tg_user =
  ident :: int
  mention_html :: string

record update =
  effective_user :: "tg_user option"
  message :: "string option"

record location =
  loc_city :: string
  loc_country :: string

record session =
  user_locations :: "int \<Rightarrow> location option"
  users_awaiting_city :: "int \<Rightarrow> string option"

datatype template =
    Welcome string
  | ChooseCountry "(string \<times> string) list list"
  | NoSavedLocation
  | SearchingSaved string string
  | CountryChosen string
  | Unavailable string string
  | ProcessingError
  | Schedule string string "string list"
  | HelpText
  | LocationSaved string string
  | Searching string string
  | Fallback

datatype action =
    ReplyHtml template
  | ReplyText template
  | EditMessageText template
  | AnswerCallback

record turn =
  sent :: "action list"
  store :: session
  raised :: "exn option"

text \<open>A reply is a sent text or an edited message; answering the callback query is not.\<close>

fun is_reply :: "action \<Rightarrow> bool" where
  "is_reply (ReplyHtml t) = True"
| "is_reply (ReplyText t) = True"
| "is_reply (EditMessageText t) = True"
| "is_reply AnswerCallback = False"

definition after_sending :: "action list \<Rightarrow> turn \<Rightarrow> turn" where
  "after_sending as t = t\<lparr>sent := as @ sent t\<rparr>"

text \<open>\<^verbatim>\<open>results[k]\<close> for each key the schedule text uses, in order.\<close>

fun lookups :: "(string \<times> string) list \<Rightarrow> string list \<Rightarrow> exn + string list" where
  "lookups results [] = Inr []"
| "lookups results (k # ks) =
     (case map_of results k of
        None \<Rightarrow> Inl KeyError
      | Some v \<Rightarrow> bind_exn (lookups results ks) (\<lambda>vs. Inr (v # vs)))"

definition fetch_and_send_times ::
  "(string \<Rightarrow> string \<Rightarrow> http) \<Rightarrow> int \<Rightarrow> session \<Rightarrow> string \<Rightarrow> string \<Rightarrow> turn" where
  "fetch_and_send_times net today s city country =
     (case get_prayer_times net city country of
        Inl e \<Rightarrow> \<lparr>sent = [], store = s, raised = Some e\<rparr>
      | Inr timings \<Rightarrow>
          if \<not> truthy timings
          then \<lparr>sent = [ReplyText (Unavailable city country)], store = s, raised = None\<rparr>
          else
            (case calculate_times today timings of
               Inl e \<Rightarrow> \<lparr>sent = [], store = s, raised = Some e\<rparr>
             | Inr results \<Rightarrow>
                 if results = []
                 then \<lparr>sent = [ReplyText ProcessingError], store = s, raised = None\<rparr>
                 else
                   (case lookups results
                           [''Maghrib'', ''Isha'', ''Fajr'', ''Night_Duration'',
                            ''Wake_Up_Suggestion'', ''Sleep_Suggestion''] of
                      Inl e \<Rightarrow> \<lparr>sent = [], store = s, raised = Some e\<rparr>
                    | Inr vs \<Rightarrow>
                        \<lparr>sent = [ReplyText (Schedule city country vs)], store = s,
                         raised = None\<rparr>)))"

text \<open>\<^verbatim>\<open>start\<close>: the keyboard has one button per country, three to a row, each with the
  callback data \<^verbatim>\<open>country_<name>\<close>. The list \<^verbatim>\<open>COUNTRIES\<close> (21 Arabic names) is the
  parameter \<open>countries\<close>.\<close>

fun rows_of_3 :: "'a list \<Rightarrow> 'a list list" where
  "rows_of_3 (a # b # c # rest) = [a, b, c] # rows_of_3 rest"
| "rows_of_3 [] = []"
| "rows_of_3 xs = [xs]"

definition keyboard :: "string list \<Rightarrow> (string \<times> string) list list" where
  "keyboard countries = map (map (\<lambda>c. (c, ''country_'' @ c))) (rows_of_3 countries)"

text \<open>A handler that stops at an attribute read on \<^verbatim>\<open>None\<close>, before it has sent
  anything or changed the store.\<close>

definition attribute_error :: "session \<Rightarrow> turn" where
  "attribute_error s = \<lparr>sent = [], store = s, raised = Some AttributeError\<rparr>"

text \<open>In \<^verbatim>\<open>start\<close> the first call reads \<^verbatim>\<open>update.message.reply_html\<close> and then, for
  its argument, \<^verbatim>\<open>user.mention_html()\<close>.\<close>

definition start :: "string list \<Rightarrow> session \<Rightarrow> update \<Rightarrow> turn" where
  "start countries s upd =
     (case message upd of
        None \<Rightarrow> attribute_error s
      | Some message_text \<Rightarrow>
          (case effective_user upd of
             None \<Rightarrow> attribute_error s
           | Some u \<Rightarrow>
               \<lparr>sent = [ReplyHtml (Welcome (mention_html u)),
                        ReplyText (ChooseCountry (keyboard countries))],
                store = s, raised = None\<rparr>))"

definition help_command :: "session \<Rightarrow> update \<Rightarrow> turn" where
  "help_command s upd =
     (case message upd of
        None \<Rightarrow> attribute_error s
      | Some message_text \<Rightarrow> \<lparr>sent = [ReplyText HelpText], store = s, raised = None\<rparr>)"

definition times_command ::
  "(string \<Rightarrow> string \<Rightarrow> http) \<Rightarrow> int \<Rightarrow> session \<Rightarrow> update \<Rightarrow> turn" where
  "times_command net today s upd =
     (case effective_user upd of
        None \<Rightarrow> attribute_error s
      | Some u \<Rightarrow>
          (let user_id = ident u in
           case user_locations s user_id of
             None \<Rightarrow>
               (case message upd of
                  None \<Rightarrow> attribute_error s
                | Some message_text \<Rightarrow>
                    \<lparr>sent = [ReplyText NoSavedLocation], store = s, raised = None\<rparr>)
           | Some loc \<Rightarrow>
               (let city = loc_city loc;
                    country = loc_country loc
                in case message upd of
                     None \<Rightarrow> attribute_error s
                   | Some message_text \<Rightarrow>
                       after_sending [ReplyText (SearchingSaved city country)]
                         (fetch_and_send_times net today s city country))))"

text \<open>\<^verbatim>\<open>s.split(sep, 1)\<close> and \<^verbatim>\<open>xs[i]\<close>.\<close>

definition split_once :: "char \<Rightarrow> string \<Rightarrow> string list" where
  "split_once sep s =
     (if sep \<in> set s
      then [takeWhile (\<lambda>c. c \<noteq> sep) s, tl (dropWhile (\<lambda>c. c \<noteq> sep) s)]
      else [s])"

definition item :: "'a list \<Rightarrow> nat \<Rightarrow> exn + 'a" where
  "item xs i = (if i < length xs then Inr (xs ! i) else Inl IndexError)"

definition startswith :: "string \<Rightarrow> string \<Rightarrow> bool" where
  "startswith s p = (take (length p) s = p)"

text \<open>\<^verbatim>\<open>button_callback\<close> answers the callback query first; \<^verbatim>\<open>query.data\<close> is
  \<^verbatim>\<open>None\<close> for a callback query that carries no data.\<close>

definition button_callback :: "session \<Rightarrow> int \<Rightarrow> string option \<Rightarrow> turn" where
  "button_callback s user_id query_data =
     (case query_data of
        None \<Rightarrow> \<lparr>sent = [AnswerCallback], store = s, raised = Some AttributeError\<rparr>
      | Some data \<Rightarrow>
          if startswith data ''country_''
          then
            (case item (split_once CHR ''_'' data) 1 of
               Inl e \<Rightarrow> \<lparr>sent = [AnswerCallback], store = s, raised = Some e\<rparr>
             | Inr chosen \<Rightarrow>
                 \<lparr>sent = [AnswerCallback, EditMessageText (CountryChosen chosen)],
                  store = s\<lparr>users_awaiting_city :=
                             (users_awaiting_city s)(user_id \<mapsto> chosen)\<rparr>,
                  raised = None\<rparr>)
          else \<lparr>sent = [AnswerCallback], store = s, raised = None\<rparr>)"

text \<open>\<^verbatim>\<open>str.strip()\<close>: white space is removed at both ends. Below 256 the white space
  of \<^verbatim>\<open>str.isspace\<close> is the code points 9 to 13, 28 to 32, 133 (next line) and 160
  (no-break space).\<close>

definition is_space :: "char \<Rightarrow> bool" where
  "is_space c = (of_char c \<in> set [9, 10, 11, 12, 13, 28, 29, 30, 31, 32, 133, 160 :: nat])"

definition strip :: "string \<Rightarrow> string" where
  "strip s = rev (dropWhile is_space (rev (dropWhile is_space s)))"

text \<open>The two store operations of \<^verbatim>\<open>handle_message\<close>:
  \<^verbatim>\<open>users_awaiting_city.pop(user_id)\<close> and \<^verbatim>\<open>user_locations[user_id] = {...}\<close>.\<close>

definition pop_awaiting :: "session \<Rightarrow> int \<Rightarrow> session" where
  "pop_awaiting s user_id = s\<lparr>users_awaiting_city := (users_awaiting_city s)(user_id := None)\<rparr>"

definition save_location :: "session \<Rightarrow> int \<Rightarrow> string \<Rightarrow> string \<Rightarrow> session" where
  "save_location s user_id c k =
     s\<lparr>user_locations :=
         (user_locations s)(user_id \<mapsto> \<lparr>loc_city = c, loc_country = k\<rparr>)\<rparr>"

text \<open>The stores that the pending branch of \<^verbatim>\<open>handle_message\<close> passes through, in the
  order of its statements: the store after \<^verbatim>\<open>users_awaiting_city.pop(user_id)\<close>, then
  the store after \<^verbatim>\<open>user_locations[user_id] = {...}\<close>. The handler goes on with the
  last of them.\<close>

definition city_reply_stores :: "session \<Rightarrow> int \<Rightarrow> string \<Rightarrow> string \<Rightarrow> session list" where
  "city_reply_stores s user_id text pending =
     (let s1 = pop_awaiting s user_id;
          s2 = save_location s1 user_id text pending
      in [s1, s2])"

definition handle_message ::
  "(string \<Rightarrow> string \<Rightarrow> http) \<Rightarrow> int \<Rightarrow> session \<Rightarrow> update \<Rightarrow> turn" where
  "handle_message net today s upd =
     (case effective_user upd of
        None \<Rightarrow> attribute_error s
      | Some u \<Rightarrow>
          (let user_id = ident u in
           case message upd of
             None \<Rightarrow> attribute_error s
           | Some message_text \<Rightarrow>
               (let text = strip message_text in
                case users_awaiting_city s user_id of
                  Some pending \<Rightarrow>
                    (let stores = city_reply_stores s user_id text pending
                     in after_sending
                          [ReplyText (LocationSaved text pending),
                           ReplyText (Searching text pending)]
                          (fetch_and_send_times net today (last stores) text pending))
                | None \<Rightarrow> \<lparr>sent = [ReplyText Fallback], store = s, raised = None\<rparr>)))"

text \<open>The events that \<^verbatim>\<open>main\<close> registers a handler for, and the handler each reaches.\<close>

datatype event =
    StartCommand update
  | HelpCommand update
  | TimesCommand update
  | ButtonPress int "string option"
  | TextMessage update

definition dispatch ::
  "string list \<Rightarrow> (string \<Rightarrow> string \<Rightarrow> http) \<Rightarrow> int \<Rightarrow> session \<Rightarrow> event \<Rightarrow> turn" where
  "dispatch countries net today s ev =
     (case ev of
        StartCommand upd \<Rightarrow> start countries s upd
      | HelpCommand upd \<Rightarrow> help_command s upd
      | TimesCommand upd \<Rightarrow> times_command net today s upd
      | ButtonPress user_id query_data \<Rightarrow> button_callback s user_id query_data
      | TextMessage upd \<Rightarrow> handle_message net today s upd)"

definition empty_session :: session where
  "empty_session = \<lparr>user_locations = Map.empty, users_awaiting_city = Map.empty\<rparr>"

section \<open>Start-up configuration\<close>

text \<open>
  \<^verbatim>\<open>BOT_TOKEN = os.environ.get("TELEGRAM_BOT_TOKEN", <literal>)\<close>. The literal in the
  source is a credential and is not repeated here; it is the parameter \<open>hardcoded\<close>.
  \<^verbatim>\<open>main\<close> hands the token to the application builder, which refuses an empty token,
  and then polls with it.
\<close>

definition environ_get :: "(string \<Rightarrow> string option) \<Rightarrow> string \<Rightarrow> string \<Rightarrow> string" where
  "environ_get environ key dflt = (case environ key of None \<Rightarrow> dflt | Some v \<Rightarrow> v)"

definition BOT_TOKEN :: "string \<Rightarrow> (string \<Rightarrow> string option) \<Rightarrow> string" where
  "BOT_TOKEN hardcoded environ = environ_get environ ''TELEGRAM_BOT_TOKEN'' hardcoded"

datatype startup = InvalidToken | Polling string

definition main :: "string \<Rightarrow> (string \<Rightarrow> string option) \<Rightarrow> startup" where
  "main hardcoded environ =
     (let token = BOT_TOKEN hardcoded environ
      in if token = [] then InvalidToken else Polling token)"

text \<open>Two further inputs: Fajr's clock time later than Maghrib's, and a Fajr entry that
  is JSON \<^verbatim>\<open>null\<close>.\<close>

definition pathological_timings :: py where
  "pathological_timings =
     PyDict [(''Maghrib'', PyStr ''04:30''), (''Isha'', PyStr ''19:30''), (''Fajr'', PyStr ''18:00'')]"

definition null_fajr_timings :: py where
  "null_fajr_timings =
     PyDict [(''Maghrib'', PyStr ''18:00''), (''Isha'', PyStr ''19:30''), (''Fajr'', PyNone)]"

definition late_isha_timings :: py where
  "late_isha_timings =
     PyDict [(''Maghrib'', PyStr ''18:00''), (''Isha'', PyStr ''20:00''), (''Fajr'', PyStr ''04:30'')]"

section \<open>Vocabulary and sample inputs for the statements about the handlers\<close>

text \<open>The body of a response has no usable timings: the JSON value is falsy, or it is an
  object whose \<^verbatim>\<open>data\<close> entry is missing or falsy, or that entry is an object whose
  \<^verbatim>\<open>timings\<close> entry is missing or falsy.\<close>

definition lacks_timings :: "py \<Rightarrow> bool" where
  "lacks_timings data =
     (\<not> truthy data \<or>
      (case data of
         PyDict kvs \<Rightarrow>
           (case map_of kvs ''data'' of
              None \<Rightarrow> True
            | Some d \<Rightarrow>
                \<not> truthy d \<or>
                (case d of
                   PyDict kvs' \<Rightarrow>
                     (case map_of kvs' ''timings'' of None \<Rightarrow> True | Some t \<Rightarrow> \<not> truthy t)
                 | _ \<Rightarrow> False))
       | _ \<Rightarrow> False))"

text \<open>The request fails, the status is 4xx or 5xx, the body is not JSON, or the body has
  no usable timings.\<close>

fun no_timings :: "http \<Rightarrow> bool" where
  "no_timings RequestFailed = True"
| "no_timings (Response status_code NotJson) = True"
| "no_timings (Response status_code (Json data)) =
     ((400 \<le> status_code \<and> status_code < 600) \<or> lacks_timings data)"

text \<open>The events on which a reply is due: a command or a text whose update has the
  parts the handler reads (\<^verbatim>\<open>update.message\<close>, and the user except for \<^verbatim>\<open>help\<close>),
  and a button press whose callback data starts with \<^verbatim>\<open>country_\<close>.\<close>

fun answerable :: "event \<Rightarrow> bool" where
  "answerable (StartCommand upd) = (message upd \<noteq> None \<and> effective_user upd \<noteq> None)"
| "answerable (HelpCommand upd) = (message upd \<noteq> None)"
| "answerable (TimesCommand upd) = (message upd \<noteq> None \<and> effective_user upd \<noteq> None)"
| "answerable (TextMessage upd) = (message upd \<noteq> None \<and> effective_user upd \<noteq> None)"
| "answerable (ButtonPress user_id query_data) =
     (case query_data of None \<Rightarrow> False | Some data \<Rightarrow> startswith data ''country_'')"

text \<open>Updates of user 7: a new message with a text, and an edited message, which has no
  \<^verbatim>\<open>update.message\<close>.\<close>

definition user_7 :: tg_user where
  "user_7 = \<lparr>ident = 7, mention_html = ''user''\<rparr>"

definition new_message :: "string \<Rightarrow> update" where
  "new_message message_text = \<lparr>effective_user = Some user_7, message = Some message_text\<rparr>"

definition edited_message :: update where
  "edited_message = \<lparr>effective_user = Some user_7, message = None\<rparr>"

text \<open>Networks: no connection; an empty body; a 300 response that carries the timings of
  the scenario; a 200 response whose \<^verbatim>\<open>data\<close> entry is a text.\<close>

definition offline :: "string \<Rightarrow> string \<Rightarrow> http" where
  "offline city country = RequestFailed"

definition empty_body :: "string \<Rightarrow> string \<Rightarrow> http" where
  "empty_body city country = Response 200 NotJson"

definition multiple_choices :: "string \<Rightarrow> string \<Rightarrow> http" where
  "multiple_choices city country =
     Response 300 (Json (PyDict [(''data'', PyDict [(''timings'', scenario_timings)])]))"

definition data_is_text :: "string \<Rightarrow> string \<Rightarrow> http" where
  "data_is_text city country = Response 200 (Json (PyDict [(''data'', PyStr ''no result'')]))"

text \<open>A store in which user 7 has pressed the button of Egypt and owes a city.\<close>

definition pending_session :: session where
  "pending_session =
     \<lparr>user_locations = Map.empty, users_awaiting_city = Map.empty(7 \<mapsto> ''Egypt'')\<rparr>"

definition no_environ :: "string \<Rightarrow> string option" where
  "no_environ key = None"

section \<open>Properties of the parser and of the time arithmetic\<close>

lemmas parse_defs =
  strptime_HM_def regex_HM_def H_alts_def M_alts_def colon_def is_digit_def digit_val_def

lemma H_alts_range: "(h, r) \<in> set (H_alts s) \<Longrightarrow> h < 24"
  by (auto simp: H_alts_def digit_val_def is_digit_def split: list.splits if_splits)

lemma M_alts_range: "(m, r) \<in> set (M_alts s) \<Longrightarrow> m < 60"
  by (auto simp: M_alts_def digit_val_def is_digit_def split: list.splits if_splits)

lemma regex_HM_range: "(h, m, r) \<in> set (regex_HM s) \<Longrightarrow> h < 24 \<and> m < 60"
  by (auto simp: regex_HM_def dest: H_alts_range M_alts_range)

text \<open>A parsed clock time has an hour below 24 and a minute below 60.\<close>

lemma strptime_HM_range: "strptime_HM v = Inr (h, m) \<Longrightarrow> h < 24 \<and> m < 60"
proof -
  assume a: "strptime_HM v = Inr (h, m)"
  then obtain s where v: "v = PyStr s"
    by (cases v) (auto simp: strptime_HM_def)
  from a v obtain rest where "regex_HM s = (h, m, []) # rest"
    by (auto simp: strptime_HM_def split: list.splits if_splits)
  then have "(h, m, []) \<in> set (regex_HM s)" by simp
  then show ?thesis by (rule regex_HM_range)
qed

lemma parses_as_range:
  "parses_as t k hm \<Longrightarrow> 0 \<le> clock_minutes hm \<and> clock_minutes hm < 1440"
proof -
  assume "parses_as t k hm"
  then obtain v where "strptime_HM v = Inr (fst hm, snd hm)"
    by (auto simp: parses_as_def split: sum.splits)
  then have "fst hm < 24 \<and> snd hm < 60" by (rule strptime_HM_range)
  then show ?thesis by (simp add: clock_minutes_def)
qed

lemma parse_timings_ok:
  assumes "parses_as t ''Maghrib'' mhm" "parses_as t ''Isha'' ihm" "parses_as t ''Fajr'' fhm"
  shows "parse_timings today t =
           Inr (combine today mhm, combine today ihm, combine (today + 1) fhm)"
  using assms by (auto simp: parses_as_def parse_timings_def bind_exn_def split: sum.splits)

lemma calculate_times_ok:
  assumes "parse_timings today t = Inr dts"
  shows "calculate_times today t = Inr (format_results (derive dts))"
  using assms by (simp add: calculate_times_def)

lemma derive_fields:
  "derive (m, i, f) =
     \<lparr>maghrib_dt = m, isha_dt = i, fajr_dt = f, night_duration = dt_diff f m,
      midnight_dt = dt_add m (divide_and_round (dt_diff f m) 2),
      wake_up_dt = dt_add m (divide_and_round (dt_diff f m) 2),
      sleep_dt = dt_sub f (divide_and_round (dt_diff f m) 6)\<rparr>"
  by (simp add: derive_def Let_def)

text \<open>The night is the 1440 minutes of a day plus the difference of the two clock times.\<close>

lemma night_duration_eq:
  "night_duration (derive (combine today mhm, i, combine (today + 1) fhm)) =
     (1440 + clock_minutes fhm - clock_minutes mhm) * 60000000"
  by (simp add: derive_fields dt_diff_def combine_def us_per_day_def clock_minutes_def
      algebra_simps)

lemma tod_combine: "tod (combine d hm) = clock_minutes hm * 60000000"
  by (simp add: combine_def clock_minutes_def)

lemma instant_dt_add: "instant (dt_add d td) = instant d + td"
  by (simp add: instant_def dt_add_def Let_def us_per_day_def algebra_simps)

lemma tod_dt_add: "0 \<le> tod (dt_add d td) \<and> tod (dt_add d td) < us_per_day"
  by (simp add: dt_add_def Let_def us_per_day_def)

lemma dt_less_iff:
  assumes "0 \<le> tod a" "tod a < us_per_day" "0 \<le> tod b" "tod b < us_per_day"
  shows "dt_less a b \<longleftrightarrow> instant a < instant b"
  using assms unfolding dt_less_def instant_def us_per_day_def by auto

text \<open>Where the divisor divides the duration, the rounding of \<open>divide_and_round\<close> plays
  no part; a whole number of minutes is such a duration for 2 and for 6.\<close>

lemma divide_and_round_exact: "0 < b \<Longrightarrow> b dvd a \<Longrightarrow> divide_and_round a b = a div b"
  by (auto simp: divide_and_round_def Let_def)

lemma half_night: "divide_and_round (k * 60000000) 2 = k * 30000000"
  by (simp add: divide_and_round_exact)

lemma sixth_night: "divide_and_round (k * 60000000) 6 = k * 10000000"
  by (simp add: divide_and_round_exact)

lemma parses_scenario:
  "parses_as scenario_timings ''Maghrib'' (18, 0)"
  "parses_as scenario_timings ''Isha'' (19, 30)"
  "parses_as scenario_timings ''Fajr'' (4, 30)"
  by (simp_all add: scenario_timings_def parses_as_def parse_defs)

text \<open>The scenario, step by step: the derived instants, then their formatted texts.\<close>

lemma digits_small: "n < 10 \<Longrightarrow> digits n = [digit_char n]"
  by (simp add: digits.simps)

lemma digits_two:
  "10 \<le> n \<Longrightarrow> n < 100 \<Longrightarrow> digits n = [digit_char (n div 10), digit_char (n mod 10)]"
  by (subst digits.simps) (simp add: digits_small)

lemma scenario_derive:
  "derive (combine today (18, 0), combine today (19, 30), combine (today + 1) (4, 30)) =
     \<lparr>maghrib_dt = \<lparr>ordinal = today, tod = 64800000000\<rparr>,
      isha_dt = \<lparr>ordinal = today, tod = 70200000000\<rparr>,
      fajr_dt = \<lparr>ordinal = today + 1, tod = 16200000000\<rparr>,
      night_duration = 37800000000,
      midnight_dt = \<lparr>ordinal = today, tod = 83700000000\<rparr>,
      wake_up_dt = \<lparr>ordinal = today, tod = 83700000000\<rparr>,
      sleep_dt = \<lparr>ordinal = today + 1, tod = 9900000000\<rparr>\<rparr>"
  by (simp add: derive_fields combine_def dt_diff_def dt_add_def dt_sub_def
      divide_and_round_def us_per_day_def Let_def)

lemma scenario_strftime:
  "strftime_HM \<lparr>ordinal = d, tod = 64800000000\<rparr> = ''18:00''"
  "strftime_HM \<lparr>ordinal = d, tod = 70200000000\<rparr> = ''19:30''"
  "strftime_HM \<lparr>ordinal = d, tod = 16200000000\<rparr> = ''04:30''"
  "strftime_HM \<lparr>ordinal = d, tod = 83700000000\<rparr> = ''23:15''"
  "strftime_HM \<lparr>ordinal = d, tod = 9900000000\<rparr> = ''02:45''"
  by (simp_all add: strftime_HM_def fmt_0d_def Let_def digits_small digits_two digit_char_def)

lemma scenario_duration: "split_dot_0 (timedelta_str 37800000000) = ''10:30:00''"
  by (simp add: timedelta_str_def split_dot_0_def us_per_day_def fmt_d_def fmt_0d_def Let_def
      digits_small digits_two digit_char_def)

lemma scenario_calculation:
  "calculate_times today scenario_timings =
     Inr [(''Maghrib'', ''18:00''), (''Isha'', ''19:30''), (''Fajr'', ''04:30''),
          (''Night_Duration'', ''10:30:00''), (''Islamic_Midnight'', ''23:15''),
          (''Wake_Up_Suggestion'', ''23:15''), (''Sleep_Suggestion'', ''02:45'')]"
  by (simp add: calculate_times_ok [OF parse_timings_ok [OF parses_scenario]]
      scenario_derive format_results_def scenario_strftime scenario_duration)

section \<open>The claims about the time calculation\<close>

text \<open>
  C1. For the timings Maghrib 18:00, Isha 19:30, Fajr 04:30, \<^verbatim>\<open>calculate_times\<close> returns,
  on any day, the dictionary whose night duration reads 10:30:00, whose Islamic midnight
  and wake-up suggestion read 23:15 and whose sleep suggestion reads 02:45.
\<close>

theorem scenario_result:
  "calculate_times today scenario_timings =
     Inr [(''Maghrib'', ''18:00''), (''Isha'', ''19:30''), (''Fajr'', ''04:30''),
          (''Night_Duration'', ''10:30:00''), (''Islamic_Midnight'', ''23:15''),
          (''Wake_Up_Suggestion'', ''23:15''), (''Sleep_Suggestion'', ''02:45'')]"
  by (rule scenario_calculation)

text \<open>
  C2. When the three values parse as clock times and the clock time of Fajr is earlier than
  that of Maghrib, \<^verbatim>\<open>calculate_times\<close> returns its result, and the night duration it
  computes (Fajr on the next day minus Maghrib on the reference day) is strictly positive
  and strictly less than 24 hours.
\<close>

theorem night_duration_bounds:
  assumes "parses_as timings ''Maghrib'' mhm"
    and "parses_as timings ''Isha'' ihm"
    and "parses_as timings ''Fajr'' fhm"
    and "clock_minutes fhm < clock_minutes mhm"
  shows "\<exists>dts. parse_timings today timings = Inr dts
           \<and> calculate_times today timings = Inr (format_results (derive dts))
           \<and> 0 < night_duration (derive dts)
           \<and> night_duration (derive dts) < us_per_day"
proof -
  let ?dts = "(combine today mhm, combine today ihm, combine (today + 1) fhm)"
  have p: "parse_timings today timings = Inr ?dts"
    using assms(1-3) by (rule parse_timings_ok)
  have m: "clock_minutes mhm < 1440" and f: "0 \<le> clock_minutes fhm"
    using parses_as_range [OF assms(1)] parses_as_range [OF assms(3)] by simp_all
  have "0 < night_duration (derive ?dts)" "night_duration (derive ?dts) < us_per_day"
    using m f assms(4) by (simp_all add: night_duration_eq us_per_day_def)
  with p calculate_times_ok [OF p] show ?thesis by blast
qed

theorem night_duration_bounds_witness:
  "parses_as scenario_timings ''Maghrib'' (18, 0)
   \<and> parses_as scenario_timings ''Isha'' (19, 30)
   \<and> parses_as scenario_timings ''Fajr'' (4, 30)
   \<and> clock_minutes (4, 30) < clock_minutes (18, 0)
   \<and> (\<exists>dts. parse_timings 0 scenario_timings = Inr dts
           \<and> calculate_times 0 scenario_timings = Inr (format_results (derive dts))
           \<and> 0 < night_duration (derive dts)
           \<and> night_duration (derive dts) < us_per_day)"
proof -
  have c: "clock_minutes (4, 30) < clock_minutes (18, 0)"
    by (simp add: clock_minutes_def)
  show ?thesis
    using parses_scenario c
      night_duration_bounds [OF parses_scenario c, of 0]
    by simp
qed

text \<open>
  C3. When the three values parse as clock times, the instants that \<^verbatim>\<open>calculate_times\<close>
  computes are strictly ordered: Maghrib, then the Islamic midnight, then the sleep
  suggestion, then Fajr.
\<close>

theorem instants_strictly_ordered:
  assumes "parses_as timings ''Maghrib'' mhm"
    and "parses_as timings ''Isha'' ihm"
    and "parses_as timings ''Fajr'' fhm"
  shows "\<exists>dts. parse_timings today timings = Inr dts
           \<and> calculate_times today timings = Inr (format_results (derive dts))
           \<and> 0 < night_duration (derive dts)
           \<and> dt_less (maghrib_dt (derive dts)) (midnight_dt (derive dts))
           \<and> dt_less (midnight_dt (derive dts)) (sleep_dt (derive dts))
           \<and> dt_less (sleep_dt (derive dts)) (fajr_dt (derive dts))"
proof -
  let ?m = "combine today mhm" and ?i = "combine today ihm" and ?f = "combine (today + 1) fhm"
  let ?dts = "(?m, ?i, ?f)"
  define k where "k = 1440 + clock_minutes fhm - clock_minutes mhm"
  have p: "parse_timings today timings = Inr ?dts"
    using assms by (rule parse_timings_ok)
  have rm: "0 \<le> clock_minutes mhm" "clock_minutes mhm < 1440"
    and rf: "0 \<le> clock_minutes fhm" "clock_minutes fhm < 1440"
    using parses_as_range [OF assms(1)] parses_as_range [OF assms(3)] by simp_all
  have kpos: "0 < k" using rm rf by (simp add: k_def)
  have nd: "night_duration (derive ?dts) = k * 60000000"
    by (simp add: night_duration_eq k_def)
  then have d: "dt_diff ?f ?m = k * 60000000"
    by (simp add: derive_fields)
  have mid: "midnight_dt (derive ?dts) = dt_add ?m (k * 30000000)"
    by (simp add: derive_fields d half_night)
  have sl: "sleep_dt (derive ?dts) = dt_add ?f (- (k * 10000000))"
    by (simp add: derive_fields d sixth_night dt_sub_def)
  have tm: "0 \<le> tod ?m" "tod ?m < us_per_day" and tf: "0 \<le> tod ?f" "tod ?f < us_per_day"
    using rm rf by (simp_all add: tod_combine us_per_day_def)
  have im: "instant ?f = instant ?m + k * 60000000"
    by (simp add: instant_def combine_def us_per_day_def k_def clock_minutes_def algebra_simps)
  have 1: "dt_less ?m (dt_add ?m (k * 30000000))"
    using kpos tm tod_dt_add [of ?m "k * 30000000"]
    by (simp add: dt_less_iff instant_dt_add)
  have 2: "dt_less (dt_add ?m (k * 30000000)) (dt_add ?f (- (k * 10000000)))"
    using kpos tod_dt_add [of ?m "k * 30000000"] tod_dt_add [of ?f "- (k * 10000000)"]
    by (simp add: dt_less_iff instant_dt_add im)
  have 3: "dt_less (dt_add ?f (- (k * 10000000))) ?f"
    using kpos tf tod_dt_add [of ?f "- (k * 10000000)"]
    by (simp add: dt_less_iff instant_dt_add)
  have "dt_less (maghrib_dt (derive ?dts)) (midnight_dt (derive ?dts))"
    "dt_less (midnight_dt (derive ?dts)) (sleep_dt (derive ?dts))"
    "dt_less (sleep_dt (derive ?dts)) (fajr_dt (derive ?dts))"
    using 1 2 3 unfolding mid sl by (simp_all add: derive_fields)
  moreover have "0 < night_duration (derive ?dts)"
    using kpos by (simp add: nd)
  ultimately show ?thesis using p calculate_times_ok [OF p] by blast
qed

theorem instants_strictly_ordered_witness:
  "parses_as scenario_timings ''Maghrib'' (18, 0)
   \<and> parses_as scenario_timings ''Isha'' (19, 30)
   \<and> parses_as scenario_timings ''Fajr'' (4, 30)
   \<and> (\<exists>dts. parse_timings 0 scenario_timings = Inr dts
           \<and> calculate_times 0 scenario_timings = Inr (format_results (derive dts))
           \<and> 0 < night_duration (derive dts)
           \<and> dt_less (maghrib_dt (derive dts)) (midnight_dt (derive dts))
           \<and> dt_less (midnight_dt (derive dts)) (sleep_dt (derive dts))
           \<and> dt_less (sleep_dt (derive dts)) (fajr_dt (derive dts)))"
  using parses_scenario instants_strictly_ordered [OF parses_scenario, of 0]
  by simp

lemma parses_pathological:
  "parses_as pathological_timings ''Maghrib'' (4, 30)"
  "parses_as pathological_timings ''Isha'' (19, 30)"
  "parses_as pathological_timings ''Fajr'' (18, 0)"
  by (simp_all add: pathological_timings_def parses_as_def parse_defs)

text \<open>
  C9. When the three values parse as clock times, \<^verbatim>\<open>calculate_times\<close> returns a
  non-empty result and the night duration is strictly positive, whatever the order of the
  clock times of Fajr and Maghrib; when Fajr's clock time is not earlier than Maghrib's, the
  night duration is 24 hours or more.
\<close>

theorem no_guard_on_clock_order:
  assumes "parses_as timings ''Maghrib'' mhm"
    and "parses_as timings ''Isha'' ihm"
    and "parses_as timings ''Fajr'' fhm"
  shows "\<exists>dts. parse_timings today timings = Inr dts
           \<and> calculate_times today timings = Inr (format_results (derive dts))
           \<and> format_results (derive dts) \<noteq> []
           \<and> 0 < night_duration (derive dts)
           \<and> (clock_minutes mhm \<le> clock_minutes fhm
                \<longrightarrow> us_per_day \<le> night_duration (derive dts))"
proof -
  let ?dts = "(combine today mhm, combine today ihm, combine (today + 1) fhm)"
  have p: "parse_timings today timings = Inr ?dts"
    using assms(1-3) by (rule parse_timings_ok)
  have m: "clock_minutes mhm < 1440" and f: "0 \<le> clock_minutes fhm"
    using parses_as_range [OF assms(1)] parses_as_range [OF assms(3)] by simp_all
  have "0 < night_duration (derive ?dts)"
    "clock_minutes mhm \<le> clock_minutes fhm \<longrightarrow> us_per_day \<le> night_duration (derive ?dts)"
    using m f by (simp_all add: night_duration_eq us_per_day_def)
  moreover have "format_results (derive ?dts) \<noteq> []"
    by (simp add: format_results_def)
  ultimately show ?thesis using p calculate_times_ok [OF p] by blast
qed

theorem no_guard_on_clock_order_witness:
  "parses_as pathological_timings ''Maghrib'' (4, 30)
   \<and> parses_as pathological_timings ''Isha'' (19, 30)
   \<and> parses_as pathological_timings ''Fajr'' (18, 0)
   \<and> clock_minutes (4, 30) \<le> clock_minutes (18, 0)
   \<and> (\<exists>dts. parse_timings 0 pathological_timings = Inr dts
           \<and> calculate_times 0 pathological_timings = Inr (format_results (derive dts))
           \<and> format_results (derive dts) \<noteq> []
           \<and> 0 < night_duration (derive dts)
           \<and> us_per_day \<le> night_duration (derive dts))"
proof -
  have c: "clock_minutes (4, 30) \<le> clock_minutes (18, 0)"
    by (simp add: clock_minutes_def)
  show ?thesis
    using parses_pathological c no_guard_on_clock_order [OF parses_pathological, of 0]
    by simp
qed

lemma calculate_times_Inr_nonempty:
  assumes "calculate_times today t = Inr r" "r \<noteq> []"
  shows "\<exists>dts. parse_timings today t = Inr dts \<and> r = format_results (derive dts)"
  using assms by (auto simp: calculate_times_def split: sum.splits if_splits)

lemma parse_timings_Inr:
  assumes "parse_timings today t = Inr dts"
  shows "\<exists>mhm ihm fhm. parses_as t ''Maghrib'' mhm \<and> parses_as t ''Isha'' ihm
           \<and> parses_as t ''Fajr'' fhm
           \<and> dts = (combine today mhm, combine today ihm, combine (today + 1) fhm)"
  using assms
  by (auto simp: parse_timings_def bind_exn_def parses_as_def Let_def split: sum.splits)

lemma parses_as_dict:
  "parses_as (PyDict kvs) k hm \<longleftrightarrow> (\<exists>v. map_of kvs k = Some v \<and> strptime_HM v = Inr hm)"
  by (auto simp: parses_as_def split: option.splits)

lemma format_results_except_isha:
  assumes "k \<noteq> ''Isha''"
  shows "map_of (format_results (derive (m, i, f))) k =
         map_of (format_results (derive (m, i', f))) k"
  using assms by (simp add: format_results_def derive_fields)

text \<open>
  C10. Two input dictionaries that agree on every key other than Isha, and for which
  \<^verbatim>\<open>calculate_times\<close> returns a non-empty result on the same day, give results that
  agree on every key other than Isha.
\<close>

theorem isha_does_not_influence:
  assumes "\<forall>k. k \<noteq> ''Isha'' \<longrightarrow> map_of kvs1 k = map_of kvs2 k"
    and "calculate_times today (PyDict kvs1) = Inr r1" and "r1 \<noteq> []"
    and "calculate_times today (PyDict kvs2) = Inr r2" and "r2 \<noteq> []"
  shows "\<forall>k. k \<noteq> ''Isha'' \<longrightarrow> map_of r1 k = map_of r2 k"
proof -
  from calculate_times_Inr_nonempty [OF assms(2,3)] obtain dts1 where
    p1: "parse_timings today (PyDict kvs1) = Inr dts1" and r1: "r1 = format_results (derive dts1)"
    by blast
  from calculate_times_Inr_nonempty [OF assms(4,5)] obtain dts2 where
    p2: "parse_timings today (PyDict kvs2) = Inr dts2" and r2: "r2 = format_results (derive dts2)"
    by blast
  from parse_timings_Inr [OF p1] obtain m1 i1 f1 where
    a1: "parses_as (PyDict kvs1) ''Maghrib'' m1" "parses_as (PyDict kvs1) ''Fajr'' f1"
    and d1: "dts1 = (combine today m1, combine today i1, combine (today + 1) f1)"
    by blast
  from parse_timings_Inr [OF p2] obtain m2 i2 f2 where
    a2: "parses_as (PyDict kvs2) ''Maghrib'' m2" "parses_as (PyDict kvs2) ''Fajr'' f2"
    and d2: "dts2 = (combine today m2, combine today i2, combine (today + 1) f2)"
    by blast
  have "map_of kvs1 ''Maghrib'' = map_of kvs2 ''Maghrib''"
    "map_of kvs1 ''Fajr'' = map_of kvs2 ''Fajr''"
    using assms(1) by simp_all
  with a1 a2 have "m1 = m2" "f1 = f2"
    by (auto simp: parses_as_dict)
  then show ?thesis
    unfolding r1 r2 d1 d2 using format_results_except_isha by blast
qed

lemma parses_late_isha:
  "parses_as late_isha_timings ''Maghrib'' (18, 0)"
  "parses_as late_isha_timings ''Isha'' (20, 0)"
  "parses_as late_isha_timings ''Fajr'' (4, 30)"
  by (simp_all add: late_isha_timings_def parses_as_def parse_defs)

lemma late_isha_calculation:
  "calculate_times today late_isha_timings =
     Inr [(''Maghrib'', ''18:00''), (''Isha'', ''20:00''), (''Fajr'', ''04:30''),
          (''Night_Duration'', ''10:30:00''), (''Islamic_Midnight'', ''23:15''),
          (''Wake_Up_Suggestion'', ''23:15''), (''Sleep_Suggestion'', ''02:45'')]"
proof -
  have i: "strftime_HM (combine today (20, 0)) = ''20:00''"
    by (simp add: combine_def strftime_HM_def fmt_0d_def Let_def digits_small digits_two
        digit_char_def)
  have d: "derive (combine today (18, 0), combine today (20, 0), combine (today + 1) (4, 30)) =
     (derive (combine today (18, 0), combine today (19, 30), combine (today + 1) (4, 30)))
       \<lparr>isha_dt := combine today (20, 0)\<rparr>"
    by (simp add: derive_fields)
  show ?thesis
    by (simp add: calculate_times_ok [OF parse_timings_ok [OF parses_late_isha]] d
        scenario_derive format_results_def scenario_strftime scenario_duration i)
qed

theorem isha_does_not_influence_witness:
  "map_of [(''Maghrib'', ''18:00''), (''Isha'', ''19:30''), (''Fajr'', ''04:30''),
          (''Night_Duration'', ''10:30:00''), (''Islamic_Midnight'', ''23:15''),
          (''Wake_Up_Suggestion'', ''23:15''), (''Sleep_Suggestion'', ''02:45'')]
     ''Sleep_Suggestion'' =
   map_of [(''Maghrib'', ''18:00''), (''Isha'', ''20:00''), (''Fajr'', ''04:30''),
          (''Night_Duration'', ''10:30:00''), (''Islamic_Midnight'', ''23:15''),
          (''Wake_Up_Suggestion'', ''23:15''), (''Sleep_Suggestion'', ''02:45'')]
     ''Sleep_Suggestion''
   \<and> calculate_times 0 scenario_timings \<noteq> calculate_times 0 late_isha_timings"
proof -
  have h: "\<forall>k. k \<noteq> ''Isha'' \<longrightarrow>
       map_of [(''Maghrib'', PyStr ''18:00''), (''Isha'', PyStr ''19:30''),
               (''Fajr'', PyStr ''04:30'')] k =
       map_of [(''Maghrib'', PyStr ''18:00''), (''Isha'', PyStr ''20:00''),
               (''Fajr'', PyStr ''04:30'')] k"
    by simp
  have r1: "calculate_times 0
      (PyDict [(''Maghrib'', PyStr ''18:00''), (''Isha'', PyStr ''19:30''),
               (''Fajr'', PyStr ''04:30'')]) =
     Inr [(''Maghrib'', ''18:00''), (''Isha'', ''19:30''), (''Fajr'', ''04:30''),
          (''Night_Duration'', ''10:30:00''), (''Islamic_Midnight'', ''23:15''),
          (''Wake_Up_Suggestion'', ''23:15''), (''Sleep_Suggestion'', ''02:45'')]"
    using scenario_calculation [of 0] by (simp add: scenario_timings_def)
  have r2: "calculate_times 0
      (PyDict [(''Maghrib'', PyStr ''18:00''), (''Isha'', PyStr ''20:00''),
               (''Fajr'', PyStr ''04:30'')]) =
     Inr [(''Maghrib'', ''18:00''), (''Isha'', ''20:00''), (''Fajr'', ''04:30''),
          (''Night_Duration'', ''10:30:00''), (''Islamic_Midnight'', ''23:15''),
          (''Wake_Up_Suggestion'', ''23:15''), (''Sleep_Suggestion'', ''02:45'')]"
    using late_isha_calculation [of 0] by (simp add: late_isha_timings_def)
  have d: "calculate_times 0 scenario_timings \<noteq> calculate_times 0 late_isha_timings"
    by (simp add: scenario_calculation late_isha_calculation)
  from isha_does_not_influence [OF h r1 _ r2] d show ?thesis by simp
qed

section \<open>The claim about unusable input\<close>

text \<open>A string that \<open>strptime_HM\<close> rejects is rejected with \<^verbatim>\<open>ValueError\<close>.\<close>

lemma strptime_HM_str_error: "strptime_HM (PyStr s) = Inl e \<Longrightarrow> e = ValueError"
  by (simp add: strptime_HM_def split: list.splits if_splits prod.splits)

lemma parse_timings_strs:
  assumes "map_of kvs ''Maghrib'' = Some (PyStr a)"
    "map_of kvs ''Isha'' = Some (PyStr b)" "map_of kvs ''Fajr'' = Some (PyStr c)"
  shows "parse_timings today (PyDict kvs) =
     bind_exn (strptime_HM (PyStr a)) (\<lambda>maghrib_hm.
      bind_exn (strptime_HM (PyStr b)) (\<lambda>isha_hm.
      bind_exn (strptime_HM (PyStr c)) (\<lambda>fajr_hm.
        Inr (combine today maghrib_hm, combine today isha_hm, combine (today + 1) fajr_hm))))"
  using assms by (simp add: parse_timings_def bind_exn_def)

text \<open>
  What does hold: on a dictionary whose entries for the three keys, where present, are
  strings, a missing key or a string that does not parse gives the empty dictionary.
\<close>

lemma calculate_times_no_result:
  assumes str: "\<forall>k v. k \<in> {''Maghrib'', ''Isha'', ''Fajr''} \<longrightarrow> map_of kvs k = Some v
                  \<longrightarrow> (\<exists>s. v = PyStr s)"
    and bad: "\<not> (\<exists>mhm ihm fhm. parses_as (PyDict kvs) ''Maghrib'' mhm
                  \<and> parses_as (PyDict kvs) ''Isha'' ihm \<and> parses_as (PyDict kvs) ''Fajr'' fhm)"
  shows "calculate_times today (PyDict kvs) = Inr []"
proof -
  have "parse_timings today (PyDict kvs) = Inl KeyError
        \<or> parse_timings today (PyDict kvs) = Inl ValueError"
  proof (cases "map_of kvs ''Maghrib'' = None \<or> map_of kvs ''Isha'' = None
                \<or> map_of kvs ''Fajr'' = None")
    case True
    then show ?thesis
      by (auto simp: parse_timings_def bind_exn_def split: option.splits)
  next
    case False
    then obtain x y z where xyz: "map_of kvs ''Maghrib'' = Some x"
      "map_of kvs ''Isha'' = Some y" "map_of kvs ''Fajr'' = Some z"
      by auto
    from str xyz(1) obtain a where a: "x = PyStr a" by blast
    from str xyz(2) obtain b where b: "y = PyStr b" by blast
    from str xyz(3) obtain c where c: "z = PyStr c" by blast
    note v = xyz [unfolded a b c]
    have p: "parse_timings today (PyDict kvs) =
     bind_exn (strptime_HM (PyStr a)) (\<lambda>maghrib_hm.
      bind_exn (strptime_HM (PyStr b)) (\<lambda>isha_hm.
      bind_exn (strptime_HM (PyStr c)) (\<lambda>fajr_hm.
        Inr (combine today maghrib_hm, combine today isha_hm, combine (today + 1) fajr_hm))))"
      using v by (rule parse_timings_strs)
    from bad v have n: "\<not> (\<exists>x y z. strptime_HM (PyStr a) = Inr x
        \<and> strptime_HM (PyStr b) = Inr y \<and> strptime_HM (PyStr c) = Inr z)"
      by (simp add: parses_as_def)
    show ?thesis
    proof (cases "strptime_HM (PyStr a)")
      case (Inl e)
      then show ?thesis
        using strptime_HM_str_error [OF Inl] by (simp add: p bind_exn_def)
    next
      case ra: (Inr hm1)
      show ?thesis
      proof (cases "strptime_HM (PyStr b)")
        case (Inl e)
        then show ?thesis
          using ra strptime_HM_str_error [OF Inl] by (simp add: p bind_exn_def)
      next
        case rb: (Inr hm2)
        show ?thesis
        proof (cases "strptime_HM (PyStr c)")
          case (Inl e)
          then show ?thesis
            using ra rb strptime_HM_str_error [OF Inl] by (simp add: p bind_exn_def)
        next
          case (Inr hm3)
          with ra rb n show ?thesis by blast
        qed
      qed
    qed
  qed
  then show ?thesis by (auto simp: calculate_times_def)
qed

text \<open>
  C4. The claim is that every input dictionary with a missing key, or with a value that
  does not parse as a clock time, gives the empty dictionary and no exception. With
  Maghrib 18:00, Isha 19:30 and a Fajr entry that is \<^verbatim>\<open>None\<close>, \<^verbatim>\<open>strptime\<close>
  raises \<^verbatim>\<open>TypeError\<close>, which the \<^verbatim>\<open>except (ValueError, KeyError)\<close> clause does not
  catch: the exception leaves \<^verbatim>\<open>calculate_times\<close>.
\<close>

theorem null_fajr_raises: "calculate_times today null_fajr_timings = Inl TypeError"
  by (simp add: null_fajr_timings_def calculate_times_def parse_timings_def bind_exn_def
      parse_defs)

section \<open>The claims about the handlers\<close>

lemma fetch_store: "store (fetch_and_send_times net today s city country) = s"
  by (simp add: fetch_and_send_times_def split: sum.splits)

lemma store_after_sending: "store (after_sending as t) = store t"
  by (simp add: after_sending_def)

lemma sent_after_sending: "sent (after_sending as t) = as @ sent t"
  by (simp add: after_sending_def)

lemma json_lacking_timings:
  assumes "lacks_timings data"
  shows "(if \<not> truthy data then Inr PyNone
          else
            bind_exn (py_get data ''data'') (\<lambda>d.
            if \<not> truthy d then Inr PyNone
            else
              bind_exn (subscript data ''data'') (\<lambda>d1.
              bind_exn (py_get d1 ''timings'') (\<lambda>t.
              if \<not> truthy t then Inr PyNone
              else
                bind_exn (subscript data ''data'') (\<lambda>d2.
                subscript d2 ''timings''))))) = Inr PyNone"
proof (cases "truthy data")
  case False
  then show ?thesis by simp
next
  case True
  with assms obtain kvs where data: "data = PyDict kvs"
    by (cases data) (auto simp: lacks_timings_def)
  show ?thesis
  proof (cases "map_of kvs ''data''")
    case None
    with True data show ?thesis by (simp add: bind_exn_def)
  next
    case (Some d)
    show ?thesis
    proof (cases "truthy d")
      case False
      with True data Some show ?thesis by (simp add: bind_exn_def)
    next
      case td: True
      with assms True data Some obtain kvs' where d: "d = PyDict kvs'"
        by (cases d) (auto simp: lacks_timings_def)
      from assms True data Some td d
      have "map_of kvs' ''timings'' = None
            \<or> (\<exists>t. map_of kvs' ''timings'' = Some t \<and> \<not> truthy t)"
        by (auto simp: lacks_timings_def split: option.splits)
      with True data Some td d show ?thesis
        by (auto simp: bind_exn_def)
    qed
  qed
qed

lemma get_prayer_times_none:
  assumes "no_timings (net city country)"
  shows "get_prayer_times net city country = Inr PyNone"
proof (cases "net city country")
  case RequestFailed
  then show ?thesis by (simp add: get_prayer_times_def)
next
  case (Response status_code content)
  show ?thesis
  proof (cases content)
    case NotJson
    with Response show ?thesis by (simp add: get_prayer_times_def)
  next
    case (Json data)
    with Response assms have "(400 \<le> status_code \<and> status_code < 600) \<or> lacks_timings data"
      by simp
    then show ?thesis
    proof
      assume "400 \<le> status_code \<and> status_code < 600"
      with Response Json show ?thesis by (simp add: get_prayer_times_def)
    next
      assume "lacks_timings data"
      from json_lacking_timings [OF this] Response Json show ?thesis
        by (simp add: get_prayer_times_def)
    qed
  qed
qed

lemma fetch_unavailable:
  assumes "get_prayer_times net city country = Inr timings" "\<not> truthy timings"
  shows "fetch_and_send_times net today s city country =
           \<lparr>sent = [ReplyText (Unavailable city country)], store = s, raised = None\<rparr>"
  using assms by (simp add: fetch_and_send_times_def)

text \<open>
  C6 (as amended). When the request raises, or the response has a status from 400 to 599,
  or its body is not JSON (an empty body included), or the JSON body has no usable timings
  (it is falsy, or an object whose \<^verbatim>\<open>data\<close> entry is missing or falsy, or that entry is
  an object whose \<^verbatim>\<open>timings\<close> entry is missing or falsy), then
  \<^verbatim>\<open>get_prayer_times\<close> returns \<^verbatim>\<open>None\<close>, and \<^verbatim>\<open>fetch_and_send_times\<close> sends
  the one message that the times could not be found and leaves both dictionaries of the
  store as they were.
\<close>

theorem unavailable_signal:
  assumes "no_timings (net city country)"
  shows "get_prayer_times net city country = Inr PyNone
         \<and> fetch_and_send_times net today s city country =
             \<lparr>sent = [ReplyText (Unavailable city country)], store = s, raised = None\<rparr>"
proof -
  have g: "get_prayer_times net city country = Inr PyNone"
    using assms by (rule get_prayer_times_none)
  then show ?thesis by (simp add: fetch_unavailable)
qed

theorem unavailable_signal_witness:
  "no_timings (empty_body ''Cairo'' ''Egypt'')
   \<and> get_prayer_times empty_body ''Cairo'' ''Egypt'' = Inr PyNone
   \<and> fetch_and_send_times empty_body 0 pending_session ''Cairo'' ''Egypt'' =
       \<lparr>sent = [ReplyText (Unavailable ''Cairo'' ''Egypt'')], store = pending_session,
        raised = None\<rparr>"
proof -
  have n: "no_timings (empty_body ''Cairo'' ''Egypt'')"
    by (simp add: empty_body_def)
  from n unavailable_signal [of empty_body "''Cairo''" "''Egypt''" 0 pending_session]
  show ?thesis by simp
qed

text \<open>
  The claim as stated fails: a response with status 300 is not a 2xx response, yet
  \<^verbatim>\<open>raise_for_status\<close> lets it pass and its timings are returned; and a body whose
  \<^verbatim>\<open>data\<close> entry is a text lacks the timings, yet the call of \<^verbatim>\<open>get\<close> on the text
  raises \<^verbatim>\<open>AttributeError\<close>, which is not caught.
\<close>

theorem unavailable_signal_counterexample:
  "get_prayer_times multiple_choices ''Cairo'' ''Egypt'' = Inr scenario_timings
   \<and> truthy scenario_timings
   \<and> get_prayer_times data_is_text ''Cairo'' ''Egypt'' = Inl AttributeError"
  by (simp add: get_prayer_times_def multiple_choices_def data_is_text_def bind_exn_def
      scenario_timings_def)

text \<open>The button of a country, as \<^verbatim>\<open>start\<close> builds it, leads back to that country:
  the callback data of every button is \<^verbatim>\<open>country_\<close> followed by its name, and
  \<^verbatim>\<open>button_callback\<close> on such data stores the name, also when the name has an underscore.\<close>

lemma startswith_country_item:
  assumes "startswith data ''country_''"
  shows "item (split_once CHR ''_'' data) 1 = Inr (tl (dropWhile (\<lambda>c. c \<noteq> CHR ''_'') data))"
proof -
  have "data = take (length ''country_'') data @ drop (length ''country_'') data"
    by (simp only: append_take_drop_id)
  with assms have "data = ''country_'' @ drop (length ''country_'') data"
    by (simp only: startswith_def)
  then obtain rest where "data = ''country_'' @ rest" ..
  then have "CHR ''_'' \<in> set data" by simp
  then show ?thesis by (simp add: split_once_def item_def)
qed

lemma button_callback_country:
  assumes "startswith data ''country_''"
  shows "sent (button_callback s user_id (Some data)) =
           [AnswerCallback,
            EditMessageText (CountryChosen (tl (dropWhile (\<lambda>c. c \<noteq> CHR ''_'') data)))]"
  using assms by (simp del: One_nat_def add: button_callback_def startswith_country_item)

lemma button_callback_other:
  assumes "\<not> answerable (ButtonPress user_id query_data)"
  shows "button_callback s user_id query_data =
           \<lparr>sent = [AnswerCallback], store = s,
            raised = (case query_data of None \<Rightarrow> Some AttributeError | Some data \<Rightarrow> None)\<rparr>"
  using assms by (simp add: button_callback_def split: option.splits)

lemma button_callback_own_button:
  "button_callback s user_id (Some (''country_'' @ name)) =
     \<lparr>sent = [AnswerCallback, EditMessageText (CountryChosen name)],
      store = s\<lparr>users_awaiting_city := (users_awaiting_city s)(user_id \<mapsto> name)\<rparr>,
      raised = None\<rparr>"
proof -
  have a: "startswith (''country_'' @ name) ''country_''" by (simp add: startswith_def)
  have "tl (dropWhile (\<lambda>c. c \<noteq> CHR ''_'') (''country_'' @ name)) = name" by simp
  with startswith_country_item [OF a] a show ?thesis
    by (simp del: One_nat_def add: button_callback_def)
qed

lemma concat_rows_of_3: "concat (rows_of_3 xs) = xs"
  by (induction xs rule: rows_of_3.induct) simp_all

lemma keyboard_buttons:
  "concat (keyboard countries) = map (\<lambda>c. (c, ''country_'' @ c)) countries"
  by (simp add: keyboard_def map_concat [symmetric] concat_rows_of_3)

text \<open>A user with a saved location who presses a country button is in both dictionaries
  until the city arrives.\<close>

lemma button_press_keeps_location:
  assumes "user_locations s user_id = Some loc"
  shows "user_locations (store (button_callback s user_id (Some (''country_'' @ name)))) user_id =
           Some loc
         \<and> users_awaiting_city
             (store (button_callback s user_id (Some (''country_'' @ name)))) user_id =
           Some name"
  using assms unfolding button_callback_own_button by simp

lemma city_reply_stores_eq:
  "city_reply_stores s user_id text pending =
     [pop_awaiting s user_id, save_location (pop_awaiting s user_id) user_id text pending]"
  by (simp add: city_reply_stores_def Let_def)


text \<open>The turn of one user leaves the entries of every other user as they were.\<close>

lemma handle_message_other_users:
  assumes "effective_user upd = Some u" and "w \<noteq> ident u"
  shows "user_locations (store (handle_message net today s upd)) w = user_locations s w
         \<and> users_awaiting_city (store (handle_message net today s upd)) w =
           users_awaiting_city s w"
  using assms
  by (auto simp: handle_message_def Let_def store_after_sending fetch_store
      city_reply_stores_eq attribute_error_def save_location_def pop_awaiting_def
      split: option.splits)




text \<open>
  C7 (as amended). A handler sends a reply exactly on the events on which a reply is due.
  The handlers of the commands \<^verbatim>\<open>start\<close>, \<^verbatim>\<open>help\<close> and \<^verbatim>\<open>times\<close> and the handler
  of free text send at least one reply (a text) when the update has the parts they read,
  also when the fetch of the times then raises; on an update without
  \<^verbatim>\<open>update.message\<close> or without a user (an edited message, a channel post) they send
  no reply. The handler of button presses replies (it edits the message)
  on every callback payload that starts with \<^verbatim>\<open>country_\<close>; on every other payload, and
  on a callback query without data, it answers the callback query and sends nothing else.
\<close>

theorem handlers_reply:
  "(list_ex is_reply (sent (dispatch countries net today s ev)) \<longleftrightarrow> answerable ev)
   \<and> (\<not> answerable (ButtonPress user_id query_data) \<longrightarrow>
        sent (dispatch countries net today s (ButtonPress user_id query_data)) =
          [AnswerCallback])"
proof
  show "list_ex is_reply (sent (dispatch countries net today s ev)) \<longleftrightarrow> answerable ev"
  proof (cases ev)
    case (StartCommand upd)
    then show ?thesis
      by (simp add: dispatch_def start_def attribute_error_def split: option.splits)
  next
    case (HelpCommand upd)
    then show ?thesis
      by (simp add: dispatch_def help_command_def attribute_error_def split: option.splits)
  next
    case (TimesCommand upd)
    then show ?thesis
      by (auto simp: dispatch_def times_command_def attribute_error_def sent_after_sending
          Let_def split: option.splits)
  next
    case (ButtonPress w query_data')
    show ?thesis
    proof (cases "answerable (ButtonPress w query_data')")
      case True
      then obtain data where "query_data' = Some data" "startswith data ''country_''"
        by (cases query_data') simp_all
      with ButtonPress True show ?thesis
        by (simp add: dispatch_def button_callback_country)
    next
      case False
      with ButtonPress show ?thesis
        by (simp add: dispatch_def button_callback_other)
    qed
  next
    case (TextMessage upd)
    then show ?thesis
      by (simp add: dispatch_def handle_message_def attribute_error_def sent_after_sending
          Let_def split: option.splits)
  qed
next
  show "\<not> answerable (ButtonPress user_id query_data) \<longrightarrow>
        sent (dispatch countries net today s (ButtonPress user_id query_data)) =
          [AnswerCallback]"
    by (simp add: dispatch_def button_callback_other)
qed

theorem handlers_reply_witness:
  "answerable (ButtonPress 7 (Some ''country_Egypt''))
   \<and> list_ex is_reply
       (sent (dispatch [] offline 0 empty_session (ButtonPress 7 (Some ''country_Egypt''))))
   \<and> answerable (TextMessage (new_message ''Cairo''))
   \<and> list_ex is_reply (sent (dispatch [] offline 0 empty_session (TextMessage (new_message ''Cairo''))))
   \<and> \<not> answerable (ButtonPress 7 (Some ''refresh''))
   \<and> sent (dispatch [] offline 0 empty_session (ButtonPress 7 (Some ''refresh''))) =
       [AnswerCallback]"
proof -
  have a: "answerable (ButtonPress 7 (Some ''country_Egypt''))"
    by (simp add: startswith_def)
  have b: "answerable (TextMessage (new_message ''Cairo''))"
    by (simp add: new_message_def)
  have c: "\<not> answerable (ButtonPress 7 (Some ''refresh''))"
    by (simp add: startswith_def)
  from a b c
    handlers_reply [of "[]" offline 0 empty_session "ButtonPress 7 (Some ''country_Egypt'')"
      7 "Some ''refresh''"]
    handlers_reply [of "[]" offline 0 empty_session "TextMessage (new_message ''Cairo'')"
      7 "Some ''refresh''"]
  show ?thesis by simp
qed

text \<open>
  The claim as stated fails on a callback payload that does not start with
  \<^verbatim>\<open>country_\<close>, where the handler answers the callback query and neither sends a text
  nor edits a message; and it fails on the text of an edited message, where the handler
  raises at \<^verbatim>\<open>update.message.text\<close> before it sends anything.
\<close>

theorem handlers_reply_counterexample:
  "\<not> list_ex is_reply
       (sent (dispatch [] offline 0 empty_session (ButtonPress 7 (Some ''refresh''))))
   \<and> \<not> list_ex is_reply
       (sent (dispatch [] offline 0 empty_session (TextMessage edited_message)))
   \<and> raised (dispatch [] offline 0 empty_session (TextMessage edited_message)) =
       Some AttributeError"
  by (simp add: dispatch_def button_callback_def startswith_def handle_message_def
      attribute_error_def edited_message_def)

section \<open>The claim about the access token\<close>

lemma token_from_environment:
  assumes "environ ''TELEGRAM_BOT_TOKEN'' = Some t"
  shows "BOT_TOKEN hardcoded environ = t"
  using assms by (simp add: BOT_TOKEN_def environ_get_def)

text \<open>
  C8 (as amended). The access token is read from the environment variable
  \<^verbatim>\<open>TELEGRAM_BOT_TOKEN\<close> when it is set. When the variable is absent, the token is the
  literal written in the module, and start-up proceeds with that token.
\<close>

theorem absent_token_falls_back:
  assumes "environ ''TELEGRAM_BOT_TOKEN'' = None" and "hardcoded \<noteq> []"
  shows "BOT_TOKEN hardcoded environ = hardcoded \<and> main hardcoded environ = Polling hardcoded"
  using assms by (simp add: main_def BOT_TOKEN_def environ_get_def)

theorem absent_token_falls_back_witness:
  "no_environ ''TELEGRAM_BOT_TOKEN'' = None \<and> ''0:token'' \<noteq> []
   \<and> BOT_TOKEN ''0:token'' no_environ = ''0:token''
   \<and> main ''0:token'' no_environ = Polling ''0:token''"
proof -
  have e: "no_environ ''TELEGRAM_BOT_TOKEN'' = None" by (simp add: no_environ_def)
  have n: "''0:token'' \<noteq> []" by simp
  from e absent_token_falls_back [of no_environ "''0:token''"] show ?thesis by simp
qed

text \<open>
  The claim as stated fails: with the variable absent, start-up does not end in a
  configuration error.
\<close>

theorem absent_token_falls_back_counterexample:
  "no_environ ''TELEGRAM_BOT_TOKEN'' = None \<and> main ''0:token'' no_environ \<noteq> InvalidToken"
  by (simp add: main_def BOT_TOKEN_def environ_get_def no_environ_def)

end
